theory Spec2Isabelle
  imports Complex_Main
begin

section \<open>Python values used by \<^verbatim>\<open>backend/app.py\<close>\<close>

text \<open>
  A Python \<^verbatim>\<open>str\<close> is a \<^typ>\<open>string\<close>; an \<^verbatim>\<open>Optional[str]\<close> is a
  \<^typ>\<open>string option\<close> with \<^term>\<open>None\<close> for Python's \<^verbatim>\<open>None\<close>. A character of the
  model is a code point below 256.
\<close>

text \<open>\<^verbatim>\<open>x or ''\<close> for an optional string: \<^verbatim>\<open>None\<close> and the empty string are falsy.\<close>

definition or_empty :: "string option \<Rightarrow> string" where
  "or_empty x = (case x of None \<Rightarrow> [] | Some s \<Rightarrow> (if s = [] then [] else s))"

text \<open>What an f-string writes for a replacement field holding an optional string:
  \<^verbatim>\<open>format(None, '')\<close> is the text \<^verbatim>\<open>None\<close>.\<close>

definition format_value :: "string option \<Rightarrow> string" where
  "format_value x = (case x of None \<Rightarrow> ''None'' | Some s \<Rightarrow> s)"

text \<open>\<^verbatim>\<open>d.get(key, default)\<close> on a dictionary.\<close>

definition dict_get :: "('k \<rightharpoonup> 'v) \<Rightarrow> 'k \<Rightarrow> 'v \<Rightarrow> 'v" where
  "dict_get d k dflt = (case d k of None \<Rightarrow> dflt | Some v \<Rightarrow> v)"

text \<open>\<^verbatim>\<open>str.isspace\<close> on one character (the code points below 256 that Python counts
  as whitespace) and \<^verbatim>\<open>str.strip()\<close>.\<close>

definition isspace :: "char \<Rightarrow> bool" where
  "isspace c = (c \<in> {CHR 0x09, CHR 0x0A, CHR 0x0B, CHR 0x0C, CHR 0x0D,
                      CHR 0x1C, CHR 0x1D, CHR 0x1E, CHR 0x1F, CHR 0x20, CHR 0x85, CHR 0xA0})"

definition lstrip :: "string \<Rightarrow> string" where
  "lstrip s = dropWhile isspace s"

definition rstrip :: "string \<Rightarrow> string" where
  "rstrip s = rev (dropWhile isspace (rev s))"

definition strip :: "string \<Rightarrow> string" where
  "strip s = rstrip (lstrip s)"

section \<open>The request and the prompt templates\<close>

text \<open>The values of \<^verbatim>\<open>prefs\<close> are \<^verbatim>\<open>Any\<close>: they stay opaque.\<close>

typedecl py_any

type_synonym py_dict = "(string \<times> py_any) list"

record AtfoodRequest =
  action :: string
  user_text :: "string option"
  recipe_id :: "string option"
  critic_topic :: "string option"
  session_id :: "string option"
  prefs :: "py_dict option"

definition RECIPE_CONTEXT :: "string \<rightharpoonup> (string \<rightharpoonup> string)" where
  "RECIPE_CONTEXT = map_of
    [(''chili_crisp_noodles'', map_of
        [(''title'', ''15-minute chili crisp noodles''),
         (''blurb'', ''Heat, crunch, and a sauce that clings. Easy to adapt: vegan, low-sodium, or extra protein.'')]),
     (''charred_lemon_chicken'', map_of
        [(''title'', ''Charred lemon chicken + herbs''),
         (''blurb'', ''Weeknight-perfect, restaurant aroma. Works with thighs, breasts, tofu, or cauliflower.'')]),
     (''silky_tomato_soup'', map_of
        [(''title'', ''Silky tomato soup (no sadness)''),
         (''blurb'', ''Roast the tomatoes. Finish with a bright acid. The difference is night and day.'')])]"

text \<open>The five lambdas of \<^verbatim>\<open>ACTION_PROMPTS\<close>, one definition each. In
  \<^verbatim>\<open>adjust_recipe\<close> the title is
  \<^verbatim>\<open>RECIPE_CONTEXT.get(req.recipe_id or '', {}).get('title', req.recipe_id)\<close>: its default is
  the raw field, so the value written is an optional string.\<close>

definition prompt_open_ai_kitchen :: "AtfoodRequest \<Rightarrow> string" where
  "prompt_open_ai_kitchen req =
     ''ACTION=open_ai_kitchen\<newline>'' @
     ''Goal: Onboard user into AI Kitchen and collect dish + constraints.\<newline>'' @
     ''User text: '' @ or_empty (user_text req) @ ''\<newline>''"

definition prompt_world_picks :: "AtfoodRequest \<Rightarrow> string" where
  "prompt_world_picks req =
     ''ACTION=world_picks\<newline>'' @
     ''Goal: Give 'world picks' + a flavor compass. Ask what they want to explore.\<newline>'' @
     ''User text: '' @ or_empty (user_text req) @ ''\<newline>''"

definition prompt_food_era :: "AtfoodRequest \<Rightarrow> string" where
  "prompt_food_era req =
     ''ACTION=food_era\<newline>'' @
     ''Goal: Build a two-week 'food era' plan with sauces/techniques/dishes.\<newline>'' @
     ''User text: '' @ or_empty (user_text req) @ ''\<newline>''"

definition prompt_adjust_recipe :: "AtfoodRequest \<Rightarrow> string" where
  "prompt_adjust_recipe req =
     ''ACTION=adjust_recipe\<newline>'' @
     ''Goal: Adapt this recipe without losing soul.\<newline>'' @
     ''Recipe: '' @
       format_value
         (case dict_get RECIPE_CONTEXT (or_empty (recipe_id req)) Map.empty ''title'' of
            None \<Rightarrow> recipe_id req
          | Some title \<Rightarrow> Some title) @ ''\<newline>'' @
     ''Recipe blurb: '' @
       dict_get (dict_get RECIPE_CONTEXT (or_empty (recipe_id req)) Map.empty) ''blurb'' [] @
       ''\<newline>'' @
     ''User constraints/request: '' @ or_empty (user_text req) @ ''\<newline>'' @
     ''If user gave no constraints, propose 3 good adaptation directions.\<newline>''"

definition prompt_critic_notes :: "AtfoodRequest \<Rightarrow> string" where
  "prompt_critic_notes req =
     ''ACTION=critic_notes\<newline>'' @
     ''Goal: Punchy critic note expansion.\<newline>'' @
     ''Topic: '' @ or_empty (critic_topic req) @ ''\<newline>'' @
     ''User text: '' @ or_empty (user_text req) @ ''\<newline>''"

definition ACTION_PROMPTS :: "string \<rightharpoonup> (AtfoodRequest \<Rightarrow> string)" where
  "ACTION_PROMPTS = map_of
    [(''open_ai_kitchen'', prompt_open_ai_kitchen),
     (''world_picks'', prompt_world_picks),
     (''food_era'', prompt_food_era),
     (''adjust_recipe'', prompt_adjust_recipe),
     (''critic_notes'', prompt_critic_notes)]"

section \<open>Decimal arithmetic\<close>

text \<open>
  The cost is computed with Python's \<^verbatim>\<open>decimal.Decimal\<close> under the default context, which
  the module never changes: precision 28, rounding \<^verbatim>\<open>ROUND_HALF_EVEN\<close>, \<^verbatim>\<open>Emax = 999999\<close>,
  \<^verbatim>\<open>Emin = -999999\<close>, no clamping, and the traps \<^verbatim>\<open>InvalidOperation\<close>, \<^verbatim>\<open>DivisionByZero\<close>
  and \<^verbatim>\<open>Overflow\<close>. A finite decimal is a sign, a coefficient \<open>c\<close> and an exponent \<open>e\<close>; its
  value is \<open>c \<times> 10\<^sup>e\<close>, negated when the sign is set. \<^verbatim>\<open>NaN\<close> and the infinities are not
  represented: the rates are finite numbers. A trapped signal raises; the others
  (\<^verbatim>\<open>Inexact\<close>, \<^verbatim>\<open>Rounded\<close>, \<^verbatim>\<open>Underflow\<close>, \<^verbatim>\<open>Subnormal\<close>, \<^verbatim>\<open>Clamped\<close>) only set a flag and are
  left out.
\<close>

record decimal =
  dec_sign :: bool
  dec_int :: nat
  dec_exp :: int

datatype signal = Overflow | DivisionByZero | InvalidOperation

definition prec :: nat where
  "prec = 28"

definition Emax :: int where
  "Emax = 999999"

definition Emin :: int where
  "Emin = - 999999"

definition Etiny :: int where
  "Etiny = Emin - (int prec - 1)"

definition Etop :: int where
  "Etop = Emax - (int prec - 1)"

text \<open>The number of decimal digits of a coefficient: \<^verbatim>\<open>len(str(n))\<close>.\<close>

function ndigits :: "nat \<Rightarrow> nat" where
  "ndigits n = (if n < 10 then 1 else Suc (ndigits (n div 10)))"
  by pat_completeness auto
termination
  by (relation "measure (\<lambda>n. n)") auto

declare ndigits.simps [simp del]


text \<open>\<^verbatim>\<open>Decimal(n)\<close> for an integer and \<^verbatim>\<open>Decimal("1000")\<close>: both exact.\<close>

definition Decimal :: "int \<Rightarrow> decimal" where
  "Decimal n = \<lparr>dec_sign = (n < 0), dec_int = nat \<bar>n\<bar>, dec_exp = 0\<rparr>"

text \<open>Dropping the last \<open>k\<close> digits of a coefficient, rounding half to even.\<close>

definition round_half_even :: "nat \<Rightarrow> nat \<Rightarrow> nat" where
  "round_half_even c k =
     (let q = c div 10 ^ k; r = c mod 10 ^ k
      in if 2 * r > 10 ^ k \<or> (2 * r = 10 ^ k \<and> odd q) then q + 1 else q)"

text \<open>
  \<^verbatim>\<open>Decimal._fix\<close>: every arithmetic result passes through it. A zero keeps its sign and has
  its exponent moved into range; a result whose adjusted exponent exceeds \<^verbatim>\<open>Emax\<close> raises
  \<^verbatim>\<open>Overflow\<close>; a coefficient longer than the precision (or an exponent below \<^verbatim>\<open>Etiny\<close>)
  is rounded.
\<close>

definition dec_fix :: "decimal \<Rightarrow> signal + decimal" where
  "dec_fix d =
     (if dec_int d = 0 then Inr (d\<lparr>dec_exp := min (max (dec_exp d) Etiny) Emax\<rparr>)
      else
        let exp_min0 = int (ndigits (dec_int d)) + dec_exp d - int prec in
        if exp_min0 > Etop then Inl Overflow
        else
          let exp_min = max exp_min0 Etiny in
          if dec_exp d < exp_min then
            let c = round_half_even (dec_int d) (nat (exp_min - dec_exp d));
                c' = (if ndigits c > prec then c div 10 else c);
                e' = (if ndigits c > prec then exp_min + 1 else exp_min)
            in if e' > Etop then Inl Overflow
               else Inr \<lparr>dec_sign = dec_sign d, dec_int = c', dec_exp = e'\<rparr>
          else Inr d)"

text \<open>The exact product and the exact sum, before the context rounds them.\<close>

definition exact_mul :: "decimal \<Rightarrow> decimal \<Rightarrow> decimal" where
  "exact_mul a b =
     \<lparr>dec_sign = (dec_sign a \<noteq> dec_sign b), dec_int = dec_int a * dec_int b,
      dec_exp = dec_exp a + dec_exp b\<rparr>"

definition signed_int :: "decimal \<Rightarrow> int" where
  "signed_int d = (if dec_sign d then - int (dec_int d) else int (dec_int d))"

definition exact_add :: "decimal \<Rightarrow> decimal \<Rightarrow> decimal" where
  "exact_add a b =
     (let e = min (dec_exp a) (dec_exp b);
          s = signed_int a * 10 ^ nat (dec_exp a - e) + signed_int b * 10 ^ nat (dec_exp b - e)
      in if s = 0
         then \<lparr>dec_sign = (dec_int a = 0 \<and> dec_int b = 0 \<and> dec_sign a \<and> dec_sign b),
               dec_int = 0, dec_exp = e\<rparr>
         else \<lparr>dec_sign = (s < 0), dec_int = nat \<bar>s\<bar>, dec_exp = e\<rparr>)"

definition dec_mul :: "decimal \<Rightarrow> decimal \<Rightarrow> signal + decimal" where
  "dec_mul a b = dec_fix (exact_mul a b)"

definition dec_add :: "decimal \<Rightarrow> decimal \<Rightarrow> signal + decimal" where
  "dec_add a b = dec_fix (exact_add a b)"

text \<open>
  \<^verbatim>\<open>Decimal.__truediv__\<close>. The loop of an exact quotient removes trailing zeros while the
  exponent is below the ideal one.
\<close>

function reduce_exp :: "int \<Rightarrow> nat \<Rightarrow> int \<Rightarrow> nat \<times> int" where
  "reduce_exp ideal coeff e =
     (if e < ideal \<and> coeff mod 10 = 0 then reduce_exp ideal (coeff div 10) (e + 1)
      else (coeff, e))"
  by pat_completeness auto
termination
  by (relation "measure (\<lambda>(ideal, coeff, e). nat (ideal - e))") auto

declare reduce_exp.simps [simp del]

definition dec_div :: "decimal \<Rightarrow> decimal \<Rightarrow> signal + decimal" where
  "dec_div a b =
     (if dec_int b = 0 then (if dec_int a = 0 then Inl InvalidOperation else Inl DivisionByZero)
      else if dec_int a = 0
        then dec_fix \<lparr>dec_sign = (dec_sign a \<noteq> dec_sign b), dec_int = 0,
                  dec_exp = dec_exp a - dec_exp b\<rparr>
      else
        let shift = int (ndigits (dec_int b)) - int (ndigits (dec_int a)) + int prec + 1;
            e = dec_exp a - dec_exp b - shift;
            num = (if shift \<ge> 0 then dec_int a * 10 ^ nat shift else dec_int a);
            den = (if shift \<ge> 0 then dec_int b else dec_int b * 10 ^ nat (- shift));
            coeff = num div den;
            remainder = num mod den;
            (coeff', e') =
              (if remainder \<noteq> 0 then ((if coeff mod 5 = 0 then coeff + 1 else coeff), e)
               else reduce_exp (dec_exp a - dec_exp b) coeff e)
        in dec_fix \<lparr>dec_sign = (dec_sign a \<noteq> dec_sign b), dec_int = coeff', dec_exp = e'\<rparr>)"

text \<open>Sequencing of computations that may raise.\<close>

definition and_then :: "'e + 'a \<Rightarrow> ('a \<Rightarrow> 'e + 'b) \<Rightarrow> 'e + 'b" where
  "and_then r f = (case r of Inl e \<Rightarrow> Inl e | Inr a \<Rightarrow> f a)"

text \<open>
  Lines 356--359 of the handler:
  \<^verbatim>\<open>(Decimal(prompt_tokens) * IN + Decimal(response_tokens) * OUT) / Decimal("1000")\<close>.
\<close>

definition total_cost :: "decimal \<Rightarrow> decimal \<Rightarrow> int \<Rightarrow> int \<Rightarrow> signal + decimal" where
  "total_cost input_price output_price prompt_tokens response_tokens =
     and_then (dec_mul (Decimal prompt_tokens) input_price) (\<lambda>a.
     and_then (dec_mul (Decimal response_tokens) output_price) (\<lambda>b.
     and_then (dec_add a b) (\<lambda>s.
     dec_div s (Decimal 1000))))"


section \<open>Configuration, errors and state\<close>

text \<open>The module-level constants read from the environment at import.\<close>

record config =
  ATFOOD_API_TOKEN :: "string option"
  RATE_LIMIT_REQUESTS :: int
  RATE_LIMIT_WINDOW_SECONDS :: int
  OPEN_INPUT_PRICE_PER_1K :: decimal
  OPEN_OUTPUT_PRICE_PER_1K :: decimal

text \<open>
  What a request can end with instead of a response: an \<^verbatim>\<open>HTTPException\<close> raised by the
  handler, or an exception the handler does not catch (the provider call failing, a
  trapped decimal signal), which the framework answers with status 500.
\<close>

datatype exn = ProviderError | DecimalSignal signal | DatabaseError

datatype error = HTTPException nat string | Uncaught exn

record ConversationRecord =
  rec_user_id :: string
  rec_action :: string
  rec_prompt :: string
  rec_response_text :: string
  rec_prompt_tokens :: int
  rec_response_tokens :: int
  rec_total_cost :: decimal

text \<open>
  The process state a request can change: \<^verbatim>\<open>_rate_buckets\<close>, a \<^verbatim>\<open>defaultdict(deque)\<close> of
  clock readings per client, and the rows of the table \<^verbatim>\<open>atfood_conversations\<close>.
  \<^verbatim>\<open>time.monotonic()\<close> returns a float; the model reads it as a real number.
\<close>

type_synonym buckets = "string \<rightharpoonup> real list"

record app_state =
  rate_buckets :: buckets
  conversations :: "ConversationRecord list"

section \<open>The rate limiter\<close>

text \<open>\<^verbatim>\<open>while window and window[0] < cutoff: window.popleft()\<close>\<close>

fun popleft_expired :: "real \<Rightarrow> real list \<Rightarrow> real list" where
  "popleft_expired cutoff [] = []"
| "popleft_expired cutoff (t # window) =
     (if t < cutoff then popleft_expired cutoff window else t # window)"

text \<open>
  \<^verbatim>\<open>enforce_rate_limit\<close>, with the clock reading as an argument. Indexing the
  \<^verbatim>\<open>defaultdict\<close> creates the client's deque when it is missing, and the deque is changed
  in place, so the bucket is stored back on both paths.
\<close>

definition enforce_rate_limit ::
    "config \<Rightarrow> real \<Rightarrow> string \<Rightarrow> buckets \<Rightarrow> (error + unit) \<times> buckets" where
  "enforce_rate_limit cfg now client_ip bs =
     (let window = dict_get bs client_ip [];
          cutoff = now - of_int (RATE_LIMIT_WINDOW_SECONDS cfg);
          window' = popleft_expired cutoff window
      in if int (length window') \<ge> RATE_LIMIT_REQUESTS cfg
         then (Inl (HTTPException 429 ''Rate limit exceeded''), bs(client_ip \<mapsto> window'))
         else (Inr (), bs(client_ip \<mapsto> window' @ [now])))"

text \<open>Successive calls of \<^verbatim>\<open>enforce_rate_limit\<close> by one client, at the given clock
  readings: the outcomes in order, and the buckets left.\<close>

fun admit_all ::
    "config \<Rightarrow> string \<Rightarrow> real list \<Rightarrow> buckets \<Rightarrow> (error + unit) list \<times> buckets" where
  "admit_all cfg client_ip [] bs = ([], bs)"
| "admit_all cfg client_ip (now # later) bs =
     (let (r, bs') = enforce_rate_limit cfg now client_ip bs;
          (rs, bs'') = admit_all cfg client_ip later bs'
      in (r # rs, bs''))"

section \<open>The provider's response\<close>

text \<open>
  The handler reads the response with \<^verbatim>\<open>getattr(obj, name, default)\<close>. A field of the
  model is an option: \<^term>\<open>None\<close> stands for an attribute that is missing or \<^verbatim>\<open>None\<close>. The
  text of a content fragment, when present, is a string.
\<close>

record content_part =
  part_type :: "string option"
  part_text :: "string option"

record output_item =
  item_type :: "string option"
  item_content :: "content_part list option"

record response_usage =
  input_tokens :: "int option"
  output_tokens :: "int option"
  prompt_tokens :: "int option"
  completion_tokens :: "int option"

text \<open>The field \<^verbatim>\<open>output\<close> of the response is \<open>output_items\<close> here.\<close>

record model_response =
  output_text :: "string option"
  output_items :: "output_item list option"
  usage :: "response_usage option"

text \<open>The inner loop of \<^verbatim>\<open>extract_output_text\<close>: every fragment of type
  \<^verbatim>\<open>output_text\<close> appends \<^verbatim>\<open>getattr(content, "text", "")\<close> to \<^verbatim>\<open>parts\<close>.\<close>

fun append_fragments :: "content_part list \<Rightarrow> string list \<Rightarrow> string list" where
  "append_fragments [] parts = parts"
| "append_fragments (content # rest) parts =
     append_fragments rest
       (if part_type content = Some ''output_text''
        then parts @ [case part_text content of None \<Rightarrow> [] | Some t \<Rightarrow> t]
        else parts)"

text \<open>The outer loop: an item whose type is not \<^verbatim>\<open>message\<close> is skipped.\<close>

fun append_items :: "output_item list \<Rightarrow> string list \<Rightarrow> string list" where
  "append_items [] parts = parts"
| "append_items (item # rest) parts =
     (if item_type item \<noteq> Some ''message'' then append_items rest parts
      else append_items rest
             (append_fragments (case item_content item of None \<Rightarrow> [] | Some cs \<Rightarrow> cs) parts))"

definition extract_output_text :: "model_response \<Rightarrow> string" where
  "extract_output_text response =
     (case output_text response of
        Some t \<Rightarrow>
          if t \<noteq> [] then t
          else concat (append_items (case output_items response of None \<Rightarrow> [] | Some items \<Rightarrow> items) [])
      | None \<Rightarrow>
          concat (append_items (case output_items response of None \<Rightarrow> [] | Some items \<Rightarrow> items) []))"

text \<open>
  The normalization policy in the words of the specification: the aggregated text when it
  is present and non-empty, otherwise the texts of the \<^verbatim>\<open>output_text\<close> fragments of the
  \<^verbatim>\<open>message\<close> items, concatenated in list order.
\<close>

definition fragment_texts :: "output_item \<Rightarrow> string list" where
  "fragment_texts item =
     map (\<lambda>c. case part_text c of None \<Rightarrow> [] | Some t \<Rightarrow> t)
       (filter (\<lambda>c. part_type c = Some ''output_text'')
          (case item_content item of None \<Rightarrow> [] | Some cs \<Rightarrow> cs))"

definition normalized_text_spec :: "model_response \<Rightarrow> string" where
  "normalized_text_spec response =
     (if output_text response \<noteq> None \<and> output_text response \<noteq> Some []
      then the (output_text response)
      else concat (concat (map fragment_texts
             (filter (\<lambda>item. item_type item = Some ''message'')
                (case output_items response of None \<Rightarrow> [] | Some items \<Rightarrow> items)))))"

text \<open>
  Lines 347--355 of the handler. \<^verbatim>\<open>getattr(usage, name, default)\<close> on the usage object,
  which may itself be \<^verbatim>\<open>None\<close>; then \<^verbatim>\<open>int(tokens or 0)\<close>.
\<close>

definition getattr_usage ::
    "response_usage option \<Rightarrow> (response_usage \<Rightarrow> int option) \<Rightarrow> int option \<Rightarrow> int option" where
  "getattr_usage u field dflt =
     (case u of
        None \<Rightarrow> dflt
      | Some obj \<Rightarrow> (case field obj of None \<Rightarrow> dflt | Some v \<Rightarrow> Some v))"

definition int_or_0 :: "int option \<Rightarrow> int" where
  "int_or_0 x = (case x of None \<Rightarrow> 0 | Some n \<Rightarrow> (if n = 0 then 0 else n))"

definition usage_tokens :: "model_response \<Rightarrow> int \<times> int" where
  "usage_tokens response =
     (let u = usage response;
          p0 = getattr_usage u input_tokens None;
          p = (if p0 = None then getattr_usage u prompt_tokens (Some 0) else p0);
          r0 = getattr_usage u output_tokens None;
          r = (if r0 = None then getattr_usage u completion_tokens (Some 0) else r0)
      in (int_or_0 p, int_or_0 r))"

section \<open>The request handler\<close>

text \<open>
  What the handler meets outside the process during one request: the clock reading, the
  provider's answer to the prompt (\<^term>\<open>None\<close> when the call raises), whether the insert
  into the table succeeds, and \<^verbatim>\<open>str\<close> of the \<^verbatim>\<open>prefs\<close> dictionary.
\<close>

record world =
  monotonic :: real
  responses_create :: "string \<Rightarrow> model_response option"
  insert_succeeds :: bool
  str_of_dict :: "py_dict \<Rightarrow> string"

record AtfoodResponse =
  resp_text :: string
  resp_prompt_tokens :: int
  resp_response_tokens :: int
  resp_total_cost :: decimal

text \<open>Truthiness of an optional string.\<close>

definition truthy :: "string option \<Rightarrow> bool" where
  "truthy x = (case x of None \<Rightarrow> False | Some s \<Rightarrow> s \<noteq> [])"

text \<open>Lines 325--327: the token check.\<close>

definition authenticate :: "config \<Rightarrow> string option \<Rightarrow> error + unit" where
  "authenticate cfg x_atfood_token =
     (if truthy (ATFOOD_API_TOKEN cfg) \<and> truthy x_atfood_token
      then (if x_atfood_token \<noteq> ATFOOD_API_TOKEN cfg
            then Inl (HTTPException 401 ''Invalid token'') else Inr ())
      else Inr ())"

text \<open>Line 329: \<^verbatim>\<open>request.client.host if request.client else "unknown"\<close>.\<close>

definition client_ip_of :: "string option \<Rightarrow> string" where
  "client_ip_of client = (case client of None \<Rightarrow> ''unknown'' | Some host \<Rightarrow> host)"

text \<open>Lines 332--340: the template, then the \<^verbatim>\<open>Prefs\<close> and \<^verbatim>\<open>Session\<close> lines.\<close>

definition build_prompt :: "world \<Rightarrow> AtfoodRequest \<Rightarrow> error + string" where
  "build_prompt w payload =
     (case ACTION_PROMPTS (action payload) of
        None \<Rightarrow> Inl (HTTPException 400 ''Unknown action'')
      | Some prompt_builder \<Rightarrow>
          let prompt = prompt_builder payload;
              prompt = (case prefs payload of
                          None \<Rightarrow> prompt
                        | Some d \<Rightarrow> if d \<noteq> []
                                    then prompt @ ''Prefs: '' @ str_of_dict w d @ ''\<newline>''
                                    else prompt);
              prompt = (if truthy (session_id payload)
                        then prompt @ ''Session: '' @ or_empty (session_id payload) @ ''\<newline>''
                        else prompt)
          in Inr prompt)"

text \<open>Line 363: \<^verbatim>\<open>(x_atfood_user or "").strip() or client_ip or "demo-user"\<close>.\<close>

definition user_id_of :: "string option \<Rightarrow> string \<Rightarrow> string" where
  "user_id_of x_atfood_user client_ip =
     (if strip (or_empty x_atfood_user) \<noteq> [] then strip (or_empty x_atfood_user)
      else if client_ip \<noteq> [] then client_ip
      else ''demo-user'')"

text \<open>\<^verbatim>\<open>_store_conversation\<close>: one \<^verbatim>\<open>INSERT\<close> on an autocommit connection. It adds the row
  or raises.\<close>

definition store_conversation ::
    "bool \<Rightarrow> ConversationRecord \<Rightarrow> ConversationRecord list \<Rightarrow> exn + ConversationRecord list" where
  "store_conversation ok row table = (if ok then Inr (table @ [row]) else Inl DatabaseError)"

text \<open>Lines 342--381: everything after the prompt is built.\<close>

definition generate_and_store ::
    "config \<Rightarrow> world \<Rightarrow> AtfoodRequest \<Rightarrow> string option \<Rightarrow> string \<Rightarrow> string \<Rightarrow>
     ConversationRecord list \<Rightarrow> (error + AtfoodResponse) \<times> ConversationRecord list" where
  "generate_and_store cfg w payload x_atfood_user client_ip prompt table =
     (case responses_create w prompt of
        None \<Rightarrow> (Inl (Uncaught ProviderError), table)
      | Some response \<Rightarrow>
          (case total_cost (OPEN_INPUT_PRICE_PER_1K cfg) (OPEN_OUTPUT_PRICE_PER_1K cfg)
                  (fst (usage_tokens response)) (snd (usage_tokens response)) of
             Inl sig \<Rightarrow> (Inl (Uncaught (DecimalSignal sig)), table)
           | Inr cost \<Rightarrow>
               let text = strip (extract_output_text response) in
               if text = [] then (Inl (HTTPException 502 ''Empty response from model''), table)
               else
                 (case store_conversation (insert_succeeds w)
                         \<lparr>rec_user_id = user_id_of x_atfood_user client_ip,
                          rec_action = action payload,
                          rec_prompt = prompt,
                          rec_response_text = text,
                          rec_prompt_tokens = fst (usage_tokens response),
                          rec_response_tokens = snd (usage_tokens response),
                          rec_total_cost = cost\<rparr> table of
                    Inl e \<Rightarrow> (Inl (HTTPException 500 ''Failed to save conversation''), table)
                  | Inr table' \<Rightarrow>
                      (Inr \<lparr>resp_text = text,
                            resp_prompt_tokens = fst (usage_tokens response),
                            resp_response_tokens = snd (usage_tokens response),
                            resp_total_cost = cost\<rparr>, table'))))"

text \<open>\<^verbatim>\<open>atfood_endpoint\<close>: the result and the state the request leaves.\<close>

definition atfood_endpoint ::
    "config \<Rightarrow> world \<Rightarrow> AtfoodRequest \<Rightarrow> string option \<Rightarrow> string option \<Rightarrow> string option \<Rightarrow>
     app_state \<Rightarrow> (error + AtfoodResponse) \<times> app_state" where
  "atfood_endpoint cfg w payload client x_atfood_token x_atfood_user st =
     (case authenticate cfg x_atfood_token of
        Inl e \<Rightarrow> (Inl e, st)
      | Inr _ \<Rightarrow>
          let client_ip = client_ip_of client;
              limited = enforce_rate_limit cfg (monotonic w) client_ip (rate_buckets st);
              st1 = st\<lparr>rate_buckets := snd limited\<rparr>
          in (case fst limited of
                Inl e \<Rightarrow> (Inl e, st1)
              | Inr _ \<Rightarrow>
                  (case build_prompt w payload of
                     Inl e \<Rightarrow> (Inl e, st1)
                   | Inr prompt \<Rightarrow>
                       let result = generate_and_store cfg w payload x_atfood_user client_ip prompt
                                    (conversations st1)
                       in (fst result, st1\<lparr>conversations := snd result\<rparr>))))"

section \<open>Sample inputs\<close>

text \<open>The limits the module uses when the environment sets none (30 requests per 60
  seconds), no token and both rates zero; a provider that answers every prompt with a
  given text and no usage object; a request; and a state with one client's bucket.\<close>

definition default_limits :: config where
  "default_limits =
     \<lparr>ATFOOD_API_TOKEN = None, RATE_LIMIT_REQUESTS = 30, RATE_LIMIT_WINDOW_SECONDS = 60,
      OPEN_INPUT_PRICE_PER_1K = Decimal 0, OPEN_OUTPUT_PRICE_PER_1K = Decimal 0\<rparr>"

definition sample_world :: "real \<Rightarrow> string \<Rightarrow> bool \<Rightarrow> world" where
  "sample_world now reply ok =
     \<lparr>monotonic = now,
      responses_create =
        (\<lambda>prompt. Some \<lparr>output_text = Some reply, output_items = None, usage = None\<rparr>),
      insert_succeeds = ok,
      str_of_dict = (\<lambda>d. [])\<rparr>"

definition sample_request :: "string \<Rightarrow> AtfoodRequest" where
  "sample_request a =
     \<lparr>action = a, user_text = Some ''noodles'', recipe_id = None, critic_topic = None,
      session_id = None, prefs = None\<rparr>"

definition sample_state :: "real list \<Rightarrow> app_state" where
  "sample_state window = \<lparr>rate_buckets = [''203.0.113.7'' \<mapsto> window], conversations = []\<rparr>"

section \<open>Prompt templates: results\<close>

lemma or_empty_simps:
  "or_empty None = []" "or_empty (Some s) = s"
  by (simp_all add: or_empty_def)

text \<open>
  C7. For a request with action \<^verbatim>\<open>adjust_recipe\<close> whose \<^verbatim>\<open>recipe_id\<close> is a string that
  \<^verbatim>\<open>RECIPE_CONTEXT\<close> does not hold, a template is found and the prompt it renders has the
  raw identifier as the recipe title and the empty string as the blurb.
\<close>

theorem adjust_recipe_unknown_id:
  assumes "action req = ''adjust_recipe''"
    and "recipe_id req = Some rid"
    and "RECIPE_CONTEXT rid = None"
  shows "\<exists>render. ACTION_PROMPTS (action req) = Some render \<and>
           render req =
             ''ACTION=adjust_recipe\<newline>'' @
             ''Goal: Adapt this recipe without losing soul.\<newline>'' @
             ''Recipe: '' @ rid @ ''\<newline>'' @
             ''Recipe blurb: '' @ [] @ ''\<newline>'' @
             ''User constraints/request: '' @ or_empty (user_text req) @ ''\<newline>'' @
             ''If user gave no constraints, propose 3 good adaptation directions.\<newline>''"
proof -
  have found: "ACTION_PROMPTS (action req) = Some prompt_adjust_recipe"
    using assms(1) by (simp add: ACTION_PROMPTS_def)
  have entry: "dict_get RECIPE_CONTEXT (or_empty (recipe_id req)) Map.empty = Map.empty"
    using assms(2,3) by (simp add: dict_get_def or_empty_simps)
  have "prompt_adjust_recipe req =
          ''ACTION=adjust_recipe\<newline>'' @
          ''Goal: Adapt this recipe without losing soul.\<newline>'' @
          ''Recipe: '' @ rid @ ''\<newline>'' @
          ''Recipe blurb: '' @ [] @ ''\<newline>'' @
          ''User constraints/request: '' @ or_empty (user_text req) @ ''\<newline>'' @
          ''If user gave no constraints, propose 3 good adaptation directions.\<newline>''"
    unfolding prompt_adjust_recipe_def entry
    using assms(2) by (simp add: dict_get_def format_value_def)
  with found show ?thesis by blast
qed

theorem adjust_recipe_unknown_id_witness:
  "action \<lparr>action = ''adjust_recipe'', user_text = Some ''less salt'', recipe_id = Some ''pho'',
      critic_topic = None, session_id = None, prefs = None\<rparr> = ''adjust_recipe'' \<and>
   RECIPE_CONTEXT ''pho'' = None \<and>
   (\<exists>render. ACTION_PROMPTS ''adjust_recipe'' = Some render \<and>
      render \<lparr>action = ''adjust_recipe'', user_text = Some ''less salt'', recipe_id = Some ''pho'',
        critic_topic = None, session_id = None, prefs = None\<rparr> =
      ''ACTION=adjust_recipe\<newline>Goal: Adapt this recipe without losing soul.\<newline>Recipe: pho\<newline>Recipe blurb: \<newline>User constraints/request: less salt\<newline>If user gave no constraints, propose 3 good adaptation directions.\<newline>'')"
proof -
  have ctx: "RECIPE_CONTEXT ''pho'' = None"
    by (simp add: RECIPE_CONTEXT_def)
  show ?thesis
    using adjust_recipe_unknown_id [of "\<lparr>action = ''adjust_recipe'', user_text = Some ''less salt'',
      recipe_id = Some ''pho'', critic_topic = None, session_id = None, prefs = None\<rparr>" "''pho''"] ctx
    by (simp add: or_empty_simps)
qed

text \<open>
  C6. The \<^verbatim>\<open>adjust_recipe\<close> template consumes \<^verbatim>\<open>recipe_id\<close>. When the field is missing, the
  lookup key is guarded by \<^verbatim>\<open>or ''\<close> but the default title is the raw field, so the line
  rendered is \<^verbatim>\<open>Recipe: None\<close>.
\<close>

theorem adjust_recipe_missing_id_renders_None:
  "map_option (\<lambda>render. render \<lparr>action = ''adjust_recipe'', user_text = None, recipe_id = None,
      critic_topic = None, session_id = None, prefs = None\<rparr>) (ACTION_PROMPTS ''adjust_recipe'') =
   Some (''ACTION=adjust_recipe\<newline>'' @
         ''Goal: Adapt this recipe without losing soul.\<newline>'' @
         ''Recipe: None\<newline>'' @
         ''Recipe blurb: \<newline>'' @
         ''User constraints/request: \<newline>'' @
         ''If user gave no constraints, propose 3 good adaptation directions.\<newline>'')"
  by (simp add: ACTION_PROMPTS_def prompt_adjust_recipe_def dict_get_def or_empty_simps
      format_value_def RECIPE_CONTEXT_def)

section \<open>Decimal arithmetic: results\<close>

lemma ndigits_pos: "0 < ndigits n"
  by (subst ndigits.simps) simp






lemma dec_fix_same_zero:
  assumes "dec_fix d = Inr d" and "dec_int d = 0"
  shows "Etiny \<le> dec_exp d" and "dec_exp d \<le> Emax"
proof -
  from assms(1) have "map_sum id dec_exp (dec_fix d) = Inr (dec_exp d)"
    by simp
  with assms(2) have "dec_exp d = min (max (dec_exp d) Etiny) Emax"
    by (simp add: dec_fix_def)
  then show "Etiny \<le> dec_exp d" and "dec_exp d \<le> Emax"
    by (simp_all add: Etiny_def Emin_def Emax_def prec_def)
qed











lemmas dec_eval =
  total_cost_def and_then_def dec_mul_def dec_add_def dec_div_def exact_mul_def
  exact_add_def signed_int_def Decimal_def dec_fix_def round_half_even_def Let_def prec_def
  Etop_def Etiny_def Emax_def Emin_def ndigits.simps reduce_exp.simps






section \<open>Output normalization and usage: results\<close>

lemma append_fragments_eq:
  "append_fragments cs parts =
     parts @ map (\<lambda>c. case part_text c of None \<Rightarrow> [] | Some t \<Rightarrow> t)
               (filter (\<lambda>c. part_type c = Some ''output_text'') cs)"
  by (induction cs arbitrary: parts) simp_all

lemma append_items_eq:
  "append_items items parts =
     parts @ concat (map fragment_texts (filter (\<lambda>item. item_type item = Some ''message'') items))"
  by (induction items arbitrary: parts) (simp_all add: append_fragments_eq fragment_texts_def)

text \<open>
  C3. \<^verbatim>\<open>extract_output_text\<close> computes the normalization the specification words: the
  aggregated text when it is present and non-empty, otherwise the texts of the
  \<^verbatim>\<open>output_text\<close> fragments of the \<^verbatim>\<open>message\<close> items, concatenated in list order (other
  items and other fragments add nothing). For two message items holding one
  \<^verbatim>\<open>output_text\<close> fragment each, the result is the first text followed by the second.
\<close>

theorem extract_output_text_normalizes:
  "extract_output_text response = normalized_text_spec response \<and>
   extract_output_text
     \<lparr>output_text = None,
      output_items = Some
        [\<lparr>item_type = Some ''message'',
          item_content = Some [\<lparr>part_type = Some ''output_text'', part_text = Some a\<rparr>]\<rparr>,
         \<lparr>item_type = Some ''message'',
          item_content = Some [\<lparr>part_type = Some ''output_text'', part_text = Some b\<rparr>]\<rparr>],
      usage = u\<rparr> = a @ b"
proof
  show "extract_output_text response = normalized_text_spec response"
    by (cases "output_text response")
      (simp_all add: extract_output_text_def normalized_text_spec_def append_items_eq)
  show "extract_output_text
     \<lparr>output_text = None,
      output_items = Some
        [\<lparr>item_type = Some ''message'',
          item_content = Some [\<lparr>part_type = Some ''output_text'', part_text = Some a\<rparr>]\<rparr>,
         \<lparr>item_type = Some ''message'',
          item_content = Some [\<lparr>part_type = Some ''output_text'', part_text = Some b\<rparr>]\<rparr>],
      usage = u\<rparr> = a @ b"
    by (simp add: extract_output_text_def)
qed

text \<open>
  C4. The prompt-token count is \<^verbatim>\<open>input_tokens\<close> when that field is present and not null,
  otherwise \<^verbatim>\<open>prompt_tokens\<close>, otherwise 0; the response-token count is \<^verbatim>\<open>output_tokens\<close>,
  otherwise \<^verbatim>\<open>completion_tokens\<close>, otherwise 0; a missing usage object gives \<open>(0, 0)\<close>. A
  response that has only \<^verbatim>\<open>prompt_tokens\<close> and \<^verbatim>\<open>completion_tokens\<close> gives that pair.
\<close>

theorem usage_tokens_preference:
  "usage_tokens response =
     (case usage response of
        None \<Rightarrow> (0, 0)
      | Some u \<Rightarrow>
          (case input_tokens u of
             Some n \<Rightarrow> n
           | None \<Rightarrow> (case prompt_tokens u of Some n \<Rightarrow> n | None \<Rightarrow> 0),
           case output_tokens u of
             Some n \<Rightarrow> n
           | None \<Rightarrow> (case completion_tokens u of Some n \<Rightarrow> n | None \<Rightarrow> 0))) \<and>
   usage_tokens
     \<lparr>output_text = t, output_items = items,
      usage = Some \<lparr>input_tokens = None, output_tokens = None,
                    prompt_tokens = Some p, completion_tokens = Some c\<rparr>\<rparr> = (p, c)"
  by (simp add: usage_tokens_def getattr_usage_def int_or_0_def Let_def split: option.splits)

section \<open>The rate limiter: results\<close>

lemma popleft_expired_sorted:
  "sorted window \<Longrightarrow> popleft_expired cutoff window = filter (\<lambda>t. cutoff \<le> t) window"
proof (induction window)
  case Nil
  then show ?case by simp
next
  case (Cons t window)
  show ?case
  proof (cases "t < cutoff")
    case True
    with Cons show ?thesis by simp
  next
    case False
    then have "\<forall>x\<in>set (t # window). cutoff \<le> x"
      using Cons.prems by auto
    then have "filter (\<lambda>t. cutoff \<le> t) (t # window) = t # window"
      by (simp only: filter_True)
    with False show ?thesis by simp
  qed
qed

lemma popleft_expired_all:
  "\<forall>t\<in>set window. t < cutoff \<Longrightarrow> popleft_expired cutoff window = []"
  by (induction window) simp_all

lemma popleft_expired_none:
  "\<forall>t\<in>set window. cutoff \<le> t \<Longrightarrow> popleft_expired cutoff window = window"
  by (cases window) auto

lemma enforce_rate_limit_step:
  assumes "sorted (dict_get bs key [])"
  shows "enforce_rate_limit cfg now key bs =
     (if RATE_LIMIT_REQUESTS cfg
           \<le> int (length (filter (\<lambda>t. now - of_int (RATE_LIMIT_WINDOW_SECONDS cfg) \<le> t) (dict_get bs key [])))
      then (Inl (HTTPException 429 ''Rate limit exceeded''),
            bs(key \<mapsto> filter (\<lambda>t. now - of_int (RATE_LIMIT_WINDOW_SECONDS cfg) \<le> t) (dict_get bs key [])))
      else (Inr (),
            bs(key \<mapsto> filter (\<lambda>t. now - of_int (RATE_LIMIT_WINDOW_SECONDS cfg) \<le> t) (dict_get bs key []) @ [now])))"
  using assms by (simp add: enforce_rate_limit_def Let_def popleft_expired_sorted)

lemma dict_get_upd: "dict_get (bs(key \<mapsto> v)) key d = v"
  by (simp add: dict_get_def)

lemma admit_all_one_window:
  assumes "sorted (dict_get bs key [] @ calls)"
    and "\<forall>x\<in>set calls. \<forall>t\<in>set (dict_get bs key [] @ calls).
           x - of_int (RATE_LIMIT_WINDOW_SECONDS cfg) \<le> t"
  shows "fst (admit_all cfg key calls bs) =
           replicate (min (length calls) (nat (RATE_LIMIT_REQUESTS cfg - int (length (dict_get bs key [])))))
             (Inr ()) @
           replicate (length calls - nat (RATE_LIMIT_REQUESTS cfg - int (length (dict_get bs key []))))
             (Inl (HTTPException 429 ''Rate limit exceeded'')) \<and>
         dict_get (snd (admit_all cfg key calls bs)) key [] =
           dict_get bs key [] @
           take (nat (RATE_LIMIT_REQUESTS cfg - int (length (dict_get bs key [])))) calls"
  using assms
proof (induction calls arbitrary: bs)
  case Nil
  then show ?case by simp
next
  case (Cons now later)
  let ?window = "dict_get bs key []"
  let ?W = "of_int (RATE_LIMIT_WINDOW_SECONDS cfg) :: real"
  have live: "popleft_expired (now - ?W) ?window = ?window"
    using Cons.prems(2) by (intro popleft_expired_none) simp
  show ?case
  proof (cases "RATE_LIMIT_REQUESTS cfg \<le> int (length ?window)")
    case True
    let ?bs' = "bs(key \<mapsto> ?window)"
    have step: "enforce_rate_limit cfg now key bs =
        (Inl (HTTPException 429 ''Rate limit exceeded''), ?bs')"
      using True live by (simp add: enforce_rate_limit_def Let_def)
    have same: "dict_get ?bs' key [] = ?window"
      by (rule dict_get_upd)
    have s1: "sorted (?window @ later)"
      using Cons.prems(1) by (simp add: sorted_append)
    have s2: "\<forall>x\<in>set later. \<forall>t\<in>set (?window @ later). x - ?W \<le> t"
      using Cons.prems(2) by simp
    note ih = Cons.IH [of ?bs', unfolded same, OF s1 s2]
    have IH: "fst (admit_all cfg key later ?bs') =
          replicate (min (length later) (nat (RATE_LIMIT_REQUESTS cfg - int (length ?window)))) (Inr ()) @
          replicate (length later - nat (RATE_LIMIT_REQUESTS cfg - int (length ?window)))
            (Inl (HTTPException 429 ''Rate limit exceeded''))"
      and IH2: "dict_get (snd (admit_all cfg key later ?bs')) key [] =
          ?window @ take (nat (RATE_LIMIT_REQUESTS cfg - int (length ?window))) later"
      using ih by blast+
    have zero: "nat (RATE_LIMIT_REQUESTS cfg - int (length ?window)) = 0"
      using True by simp
    show ?thesis
      using IH IH2 unfolding zero
      by (simp add: step case_prod_beta)
  next
    case False
    let ?bs' = "bs(key \<mapsto> ?window @ [now])"
    have step: "enforce_rate_limit cfg now key bs = (Inr (), ?bs')"
      using False live by (simp add: enforce_rate_limit_def Let_def)
    have same: "dict_get ?bs' key [] = ?window @ [now]"
      by (rule dict_get_upd)
    have s1: "sorted ((?window @ [now]) @ later)"
      using Cons.prems(1) by simp
    have s2: "\<forall>x\<in>set later. \<forall>t\<in>set ((?window @ [now]) @ later). x - ?W \<le> t"
      using Cons.prems(2) by simp
    note ih = Cons.IH [of ?bs', unfolded same, OF s1 s2]
    have IH: "fst (admit_all cfg key later ?bs') =
          replicate (min (length later) (nat (RATE_LIMIT_REQUESTS cfg - int (length (?window @ [now])))))
            (Inr ()) @
          replicate (length later - nat (RATE_LIMIT_REQUESTS cfg - int (length (?window @ [now]))))
            (Inl (HTTPException 429 ''Rate limit exceeded''))"
      and IH2: "dict_get (snd (admit_all cfg key later ?bs')) key [] =
          (?window @ [now]) @ take (nat (RATE_LIMIT_REQUESTS cfg - int (length (?window @ [now])))) later"
      using ih by blast+
    obtain k where k: "nat (RATE_LIMIT_REQUESTS cfg - int (length ?window)) = Suc k"
      using False by (cases "nat (RATE_LIMIT_REQUESTS cfg - int (length ?window))") simp_all
    then have k': "nat (RATE_LIMIT_REQUESTS cfg - int (length (?window @ [now]))) = k"
      by simp
    show ?thesis
      using IH IH2 unfolding k k'
      by (simp add: step case_prod_beta)
  qed
qed

text \<open>
  C1 (amended). For every client key:
  \<^item> when the client's bucket is in chronological order and not ahead of the clock, a call
    drops exactly the timestamps strictly older than \<open>now - windowSeconds\<close> before the count
    check, is rejected with status 429 without recording a timestamp when at least
    \<open>maxRequests\<close> timestamps remain, and otherwise appends \<open>now\<close>; no other bucket changes,
    and the bucket stays in chronological order;
  \<^item> for calls that lie with all recorded timestamps inside one trailing window, calls are
    admitted until \<open>maxRequests\<close> timestamps are recorded and every further call is
    rejected, starting at the \<open>(maxRequests + 1)\<close>-th, and leaves the bucket as it is;
  \<^item> provided \<open>maxRequests\<close> is at least 1, a call made when every recorded timestamp is
    strictly older than \<open>now - windowSeconds\<close> is admitted.
\<close>

theorem sliding_window_rate_limit:
  "(sorted (dict_get bs key [] @ [now]) \<longrightarrow>
      enforce_rate_limit cfg now key bs =
        (if RATE_LIMIT_REQUESTS cfg
              \<le> int (length (filter (\<lambda>t. now - of_int (RATE_LIMIT_WINDOW_SECONDS cfg) \<le> t)
                                 (dict_get bs key [])))
         then (Inl (HTTPException 429 ''Rate limit exceeded''),
               bs(key \<mapsto> filter (\<lambda>t. now - of_int (RATE_LIMIT_WINDOW_SECONDS cfg) \<le> t)
                              (dict_get bs key [])))
         else (Inr (),
               bs(key \<mapsto> filter (\<lambda>t. now - of_int (RATE_LIMIT_WINDOW_SECONDS cfg) \<le> t)
                              (dict_get bs key []) @ [now]))) \<and>
      sorted (dict_get (snd (enforce_rate_limit cfg now key bs)) key [] @ [now])) \<and>
   (sorted (dict_get bs key [] @ calls) \<and>
    (\<forall>x\<in>set calls. \<forall>t\<in>set (dict_get bs key [] @ calls).
        x - of_int (RATE_LIMIT_WINDOW_SECONDS cfg) \<le> t) \<longrightarrow>
      fst (admit_all cfg key calls bs) =
        replicate (min (length calls)
                     (nat (RATE_LIMIT_REQUESTS cfg - int (length (dict_get bs key [])))))
          (Inr ()) @
        replicate (length calls - nat (RATE_LIMIT_REQUESTS cfg - int (length (dict_get bs key []))))
          (Inl (HTTPException 429 ''Rate limit exceeded'')) \<and>
      dict_get (snd (admit_all cfg key calls bs)) key [] =
        dict_get bs key [] @
        take (nat (RATE_LIMIT_REQUESTS cfg - int (length (dict_get bs key [])))) calls) \<and>
   (0 < RATE_LIMIT_REQUESTS cfg \<and>
    (\<forall>t\<in>set (dict_get bs key []). t < now - of_int (RATE_LIMIT_WINDOW_SECONDS cfg)) \<longrightarrow>
      enforce_rate_limit cfg now key bs = (Inr (), bs(key \<mapsto> [now])))"
proof (intro conjI impI)
  assume ordered: "sorted (dict_get bs key [] @ [now])"
  then have "sorted (dict_get bs key [])"
    by (simp add: sorted_append)
  then show step: "enforce_rate_limit cfg now key bs =
        (if RATE_LIMIT_REQUESTS cfg
              \<le> int (length (filter (\<lambda>t. now - of_int (RATE_LIMIT_WINDOW_SECONDS cfg) \<le> t)
                                 (dict_get bs key [])))
         then (Inl (HTTPException 429 ''Rate limit exceeded''),
               bs(key \<mapsto> filter (\<lambda>t. now - of_int (RATE_LIMIT_WINDOW_SECONDS cfg) \<le> t)
                              (dict_get bs key [])))
         else (Inr (),
               bs(key \<mapsto> filter (\<lambda>t. now - of_int (RATE_LIMIT_WINDOW_SECONDS cfg) \<le> t)
                              (dict_get bs key []) @ [now])))"
    by (rule enforce_rate_limit_step)
  have "sorted (filter (\<lambda>t. now - of_int (RATE_LIMIT_WINDOW_SECONDS cfg) \<le> t) (dict_get bs key []) @ [now])"
    using ordered by (auto simp: sorted_append intro: sorted_wrt_filter)
  then show "sorted (dict_get (snd (enforce_rate_limit cfg now key bs)) key [] @ [now])"
    unfolding step by (simp add: dict_get_upd sorted_append)
next
  assume "sorted (dict_get bs key [] @ calls) \<and>
    (\<forall>x\<in>set calls. \<forall>t\<in>set (dict_get bs key [] @ calls).
        x - of_int (RATE_LIMIT_WINDOW_SECONDS cfg) \<le> t)"
  then have A: "sorted (dict_get bs key [] @ calls)"
    and B: "\<forall>x\<in>set calls. \<forall>t\<in>set (dict_get bs key [] @ calls).
        x - of_int (RATE_LIMIT_WINDOW_SECONDS cfg) \<le> t"
    by blast+
  from admit_all_one_window [OF A B]
  show "fst (admit_all cfg key calls bs) =
        replicate (min (length calls)
                     (nat (RATE_LIMIT_REQUESTS cfg - int (length (dict_get bs key [])))))
          (Inr ()) @
        replicate (length calls - nat (RATE_LIMIT_REQUESTS cfg - int (length (dict_get bs key []))))
          (Inl (HTTPException 429 ''Rate limit exceeded''))"
    and "dict_get (snd (admit_all cfg key calls bs)) key [] =
        dict_get bs key [] @
        take (nat (RATE_LIMIT_REQUESTS cfg - int (length (dict_get bs key [])))) calls"
    by blast+
next
  assume "0 < RATE_LIMIT_REQUESTS cfg \<and>
    (\<forall>t\<in>set (dict_get bs key []). t < now - of_int (RATE_LIMIT_WINDOW_SECONDS cfg))"
  then show "enforce_rate_limit cfg now key bs = (Inr (), bs(key \<mapsto> [now]))"
    by (simp add: enforce_rate_limit_def Let_def popleft_expired_all)
qed

text \<open>
  With the default limits: of 31 calls within one minute by a fresh client the first 30
  are admitted and the 31st is rejected; a call at second 50 against the full bucket is
  rejected and leaves it unchanged; a call at second 100, when every recorded timestamp
  is older than 40, is admitted.
\<close>

theorem sliding_window_rate_limit_witness:
  "fst (admit_all default_limits ''203.0.113.7''
          [1, 2, 3, 4, 5, 6, 7, 8, 9, 10, 11, 12, 13, 14, 15, 16, 17, 18, 19, 20,
           21, 22, 23, 24, 25, 26, 27, 28, 29, 30, 31] Map.empty) =
     replicate 30 (Inr ()) @ [Inl (HTTPException 429 ''Rate limit exceeded'')] \<and>
   dict_get (snd (admit_all default_limits ''203.0.113.7''
          [1, 2, 3, 4, 5, 6, 7, 8, 9, 10, 11, 12, 13, 14, 15, 16, 17, 18, 19, 20,
           21, 22, 23, 24, 25, 26, 27, 28, 29, 30, 31] Map.empty)) ''203.0.113.7'' [] =
     [1, 2, 3, 4, 5, 6, 7, 8, 9, 10, 11, 12, 13, 14, 15, 16, 17, 18, 19, 20,
      21, 22, 23, 24, 25, 26, 27, 28, 29, 30] \<and>
   enforce_rate_limit default_limits 50 ''203.0.113.7''
       [''203.0.113.7'' \<mapsto> [1, 2, 3, 4, 5, 6, 7, 8, 9, 10, 11, 12, 13, 14, 15, 16, 17, 18, 19, 20,
           21, 22, 23, 24, 25, 26, 27, 28, 29, 30]] =
     (Inl (HTTPException 429 ''Rate limit exceeded''),
      [''203.0.113.7'' \<mapsto> [1, 2, 3, 4, 5, 6, 7, 8, 9, 10, 11, 12, 13, 14, 15, 16, 17, 18, 19, 20,
           21, 22, 23, 24, 25, 26, 27, 28, 29, 30]]) \<and>
   enforce_rate_limit default_limits 100 ''203.0.113.7''
       [''203.0.113.7'' \<mapsto> [1, 2, 3, 4, 5, 6, 7, 8, 9, 10, 11, 12, 13, 14, 15, 16, 17, 18, 19, 20,
           21, 22, 23, 24, 25, 26, 27, 28, 29, 30]] =
     (Inr (), [''203.0.113.7'' \<mapsto> [100]])"
proof -
  let ?key = "''203.0.113.7''"
  let ?first = "[1, 2, 3, 4, 5, 6, 7, 8, 9, 10, 11, 12, 13, 14, 15, 16, 17, 18, 19, 20,
           21, 22, 23, 24, 25, 26, 27, 28, 29, 30] :: real list"
  let ?calls = "[1, 2, 3, 4, 5, 6, 7, 8, 9, 10, 11, 12, 13, 14, 15, 16, 17, 18, 19, 20,
           21, 22, 23, 24, 25, 26, 27, 28, 29, 30, 31] :: real list"
  let ?full = "[?key \<mapsto> ?first]"
  have h1: "sorted (dict_get Map.empty ?key [] @ ?calls) \<and>
      (\<forall>x\<in>set ?calls. \<forall>t\<in>set (dict_get Map.empty ?key [] @ ?calls).
          x - of_int (RATE_LIMIT_WINDOW_SECONDS default_limits) \<le> t)"
    by (simp add: default_limits_def dict_get_def)
  have trace: "fst (admit_all default_limits ?key ?calls Map.empty) =
      replicate 30 (Inr ()) @ [Inl (HTTPException 429 ''Rate limit exceeded'')] \<and>
    dict_get (snd (admit_all default_limits ?key ?calls Map.empty)) ?key [] = ?first"
    using sliding_window_rate_limit [of Map.empty ?key 0 default_limits ?calls,
        THEN conjunct2, THEN conjunct1, THEN mp, OF h1]
    by (simp add: default_limits_def dict_get_def eval_nat_numeral del: admit_all.simps)
  have h2: "sorted (dict_get ?full ?key [] @ [50])"
    by (simp add: dict_get_def)
  have rejected: "enforce_rate_limit default_limits 50 ?key ?full =
      (Inl (HTTPException 429 ''Rate limit exceeded''), ?full)"
    using sliding_window_rate_limit [of ?full ?key 50 default_limits "[]",
        THEN conjunct1, THEN mp, OF h2, THEN conjunct1]
    by (simp add: default_limits_def dict_get_def)
  have h3: "0 < RATE_LIMIT_REQUESTS default_limits \<and>
      (\<forall>t\<in>set (dict_get ?full ?key []).
          t < 100 - of_int (RATE_LIMIT_WINDOW_SECONDS default_limits))"
    by (simp add: default_limits_def dict_get_def)
  have elapsed: "enforce_rate_limit default_limits 100 ?key ?full = (Inr (), [?key \<mapsto> [100]])"
    using sliding_window_rate_limit [of ?full ?key 100 default_limits "[]",
        THEN conjunct2, THEN conjunct2, THEN mp, OF h3]
    by simp
  from trace rejected elapsed show ?thesis by blast
qed

text \<open>
  C1 as stated fails for \<open>maxRequests = 0\<close>: no call is ever admitted, also not the call
  made 1000 seconds after the only earlier one.
\<close>

theorem limit_zero_never_admits_counterexample:
  "(0::real) < 1000 - of_int 60 \<and>
   fst (admit_all
          \<lparr>ATFOOD_API_TOKEN = None, RATE_LIMIT_REQUESTS = 0, RATE_LIMIT_WINDOW_SECONDS = 60,
           OPEN_INPUT_PRICE_PER_1K = Decimal 0, OPEN_OUTPUT_PRICE_PER_1K = Decimal 0\<rparr>
          ''203.0.113.7'' [0, 1000] Map.empty) =
     [Inl (HTTPException 429 ''Rate limit exceeded''),
      Inl (HTTPException 429 ''Rate limit exceeded'')]"
  by (simp add: enforce_rate_limit_def dict_get_def Let_def)

section \<open>The request handler: results\<close>

lemma enforce_rate_limit_outcome:
  "fst (enforce_rate_limit cfg now ip bs) = Inr () \<or>
   fst (enforce_rate_limit cfg now ip bs) = Inl (HTTPException 429 ''Rate limit exceeded'')"
  by (simp add: enforce_rate_limit_def Let_def)


lemma build_prompt_outcome:
  "(\<exists>prompt. build_prompt w payload = Inr prompt) \<or>
   build_prompt w payload = Inl (HTTPException 400 ''Unknown action'')"
  by (simp add: build_prompt_def Let_def split: option.splits)

lemma generate_and_store_outcome:
  "(\<exists>resp. fst (generate_and_store cfg w payload user ip prompt table) = Inr resp) \<or>
   (\<exists>e. fst (generate_and_store cfg w payload user ip prompt table) = Inl (Uncaught e)) \<or>
   fst (generate_and_store cfg w payload user ip prompt table) =
     Inl (HTTPException 502 ''Empty response from model'') \<or>
   fst (generate_and_store cfg w payload user ip prompt table) =
     Inl (HTTPException 500 ''Failed to save conversation'')"
  by (simp add: generate_and_store_def store_conversation_def Let_def split: option.splits sum.splits)

text \<open>The handler, one stage at a time.\<close>

lemma endpoint_auth_fails:
  "authenticate cfg tok = Inl e \<Longrightarrow> atfood_endpoint cfg w payload client tok user st = (Inl e, st)"
  by (simp add: atfood_endpoint_def)

lemma endpoint_limited:
  assumes "authenticate cfg tok = Inr ()"
    and "fst (enforce_rate_limit cfg (monotonic w) (client_ip_of client) (rate_buckets st)) = Inl e"
  shows "atfood_endpoint cfg w payload client tok user st =
     (Inl e, st\<lparr>rate_buckets :=
        snd (enforce_rate_limit cfg (monotonic w) (client_ip_of client) (rate_buckets st))\<rparr>)"
  using assms by (simp add: atfood_endpoint_def Let_def)

lemma endpoint_bad_action:
  assumes "authenticate cfg tok = Inr ()"
    and "fst (enforce_rate_limit cfg (monotonic w) (client_ip_of client) (rate_buckets st)) = Inr ()"
    and "build_prompt w payload = Inl e"
  shows "atfood_endpoint cfg w payload client tok user st =
     (Inl e, st\<lparr>rate_buckets :=
        snd (enforce_rate_limit cfg (monotonic w) (client_ip_of client) (rate_buckets st))\<rparr>)"
  using assms by (simp add: atfood_endpoint_def Let_def)

lemma endpoint_generates:
  assumes "authenticate cfg tok = Inr ()"
    and "fst (enforce_rate_limit cfg (monotonic w) (client_ip_of client) (rate_buckets st)) = Inr ()"
    and "build_prompt w payload = Inr prompt"
  shows "atfood_endpoint cfg w payload client tok user st =
     (fst (generate_and_store cfg w payload user (client_ip_of client) prompt (conversations st)),
      st\<lparr>rate_buckets :=
            snd (enforce_rate_limit cfg (monotonic w) (client_ip_of client) (rate_buckets st)),
          conversations :=
            snd (generate_and_store cfg w payload user (client_ip_of client) prompt
                   (conversations st))\<rparr>)"
  using assms by (simp add: atfood_endpoint_def Let_def)

lemma authenticate_cases:
  "authenticate cfg tok = Inr () \<or> authenticate cfg tok = Inl (HTTPException 401 ''Invalid token'')"
  by (simp add: authenticate_def)

lemma authenticate_rejects_iff:
  "authenticate cfg tok = Inl (HTTPException 401 ''Invalid token'') \<longleftrightarrow>
     (\<exists>secret supplied. ATFOOD_API_TOKEN cfg = Some secret \<and> secret \<noteq> [] \<and>
        tok = Some supplied \<and> supplied \<noteq> [] \<and> supplied \<noteq> secret)"
  by (cases "ATFOOD_API_TOKEN cfg"; cases tok) (auto simp: authenticate_def truthy_def)

lemma endpoint_401_iff:
  "(\<exists>detail. fst (atfood_endpoint cfg w payload client tok user st) = Inl (HTTPException 401 detail))
     \<longleftrightarrow> authenticate cfg tok = Inl (HTTPException 401 ''Invalid token'')"
proof (cases "authenticate cfg tok = Inr ()")
  case False
  then have rej: "authenticate cfg tok = Inl (HTTPException 401 ''Invalid token'')"
    using authenticate_cases [of cfg tok] by blast
  then show ?thesis
    by (simp add: endpoint_auth_fails)
next
  case auth: True
  let ?lim = "enforce_rate_limit cfg (monotonic w) (client_ip_of client) (rate_buckets st)"
  have "\<not> (\<exists>detail. fst (atfood_endpoint cfg w payload client tok user st) =
      Inl (HTTPException 401 detail))"
  proof (cases "fst ?lim = Inr ()")
    case False
    then have "fst ?lim = Inl (HTTPException 429 ''Rate limit exceeded'')"
      using enforce_rate_limit_outcome [of cfg "monotonic w" "client_ip_of client" "rate_buckets st"]
      by blast
    then show ?thesis
      by (simp add: endpoint_limited [OF auth])
  next
    case lim: True
    show ?thesis
    proof (cases "build_prompt w payload")
      case (Inl e)
      then have "e = HTTPException 400 ''Unknown action''"
        using build_prompt_outcome [of w payload] by auto
      then show ?thesis
        using Inl by (simp add: endpoint_bad_action [OF auth lim])
    next
      case (Inr prompt)
      show ?thesis
        using generate_and_store_outcome
          [of cfg w payload user "client_ip_of client" prompt "conversations st"]
        by (auto simp: endpoint_generates [OF auth lim Inr])
    qed
  qed
  with auth show ?thesis by simp
qed



lemma generate_and_store_success:
  assumes "fst (generate_and_store cfg w payload user ip prompt table) = Inr resp"
  shows "\<exists>response cost.
           responses_create w prompt = Some response \<and>
           total_cost (OPEN_INPUT_PRICE_PER_1K cfg) (OPEN_OUTPUT_PRICE_PER_1K cfg)
             (fst (usage_tokens response)) (snd (usage_tokens response)) = Inr cost \<and>
           strip (extract_output_text response) \<noteq> [] \<and>
           insert_succeeds w \<and>
           resp = \<lparr>resp_text = strip (extract_output_text response),
                   resp_prompt_tokens = fst (usage_tokens response),
                   resp_response_tokens = snd (usage_tokens response),
                   resp_total_cost = cost\<rparr> \<and>
           snd (generate_and_store cfg w payload user ip prompt table) =
             table @ [\<lparr>rec_user_id = user_id_of user ip,
                       rec_action = action payload,
                       rec_prompt = prompt,
                       rec_response_text = strip (extract_output_text response),
                       rec_prompt_tokens = fst (usage_tokens response),
                       rec_response_tokens = snd (usage_tokens response),
                       rec_total_cost = cost\<rparr>]"
  using assms
  by (auto simp: generate_and_store_def store_conversation_def Let_def
      split: option.splits sum.splits if_splits)

lemma generate_and_store_insert_fails:
  assumes "responses_create w prompt = Some response"
    and "total_cost (OPEN_INPUT_PRICE_PER_1K cfg) (OPEN_OUTPUT_PRICE_PER_1K cfg)
           (fst (usage_tokens response)) (snd (usage_tokens response)) = Inr cost"
    and "strip (extract_output_text response) \<noteq> []"
    and "\<not> insert_succeeds w"
  shows "generate_and_store cfg w payload user ip prompt table =
           (Inl (HTTPException 500 ''Failed to save conversation''), table)"
  using assms by (simp add: generate_and_store_def store_conversation_def)

lemma endpoint_success:
  assumes "fst (atfood_endpoint cfg w payload client tok user st) = Inr resp"
  shows "\<exists>prompt.
           authenticate cfg tok = Inr () \<and>
           fst (enforce_rate_limit cfg (monotonic w) (client_ip_of client) (rate_buckets st)) = Inr () \<and>
           build_prompt w payload = Inr prompt \<and>
           fst (generate_and_store cfg w payload user (client_ip_of client) prompt (conversations st))
             = Inr resp \<and>
           conversations (snd (atfood_endpoint cfg w payload client tok user st)) =
             snd (generate_and_store cfg w payload user (client_ip_of client) prompt (conversations st))"
proof -
  have auth: "authenticate cfg tok = Inr ()"
    using assms authenticate_cases [of cfg tok] by (auto simp: endpoint_auth_fails)
  have lim: "fst (enforce_rate_limit cfg (monotonic w) (client_ip_of client) (rate_buckets st)) = Inr ()"
    using assms enforce_rate_limit_outcome [of cfg "monotonic w" "client_ip_of client" "rate_buckets st"]
    by (auto simp: endpoint_limited [OF auth])
  obtain prompt where prompt: "build_prompt w payload = Inr prompt"
    using assms build_prompt_outcome [of w payload]
    by (auto simp: endpoint_bad_action [OF auth lim])
  show ?thesis
    using assms auth lim prompt by (auto simp: endpoint_generates [OF auth lim prompt])
qed

lemmas sample_eval =
  sample_world_def sample_request_def sample_state_def default_limits_def
  atfood_endpoint_def authenticate_def truthy_def client_ip_of_def enforce_rate_limit_def
  dict_get_def build_prompt_def ACTION_PROMPTS_def prompt_world_picks_def or_empty_simps
  generate_and_store_def usage_tokens_def getattr_usage_def int_or_0_def
  extract_output_text_def strip_def lstrip_def rstrip_def isspace_def user_id_of_def
  store_conversation_def Let_def

lemma total_cost_free: "total_cost (Decimal 0) (Decimal 0) 0 0 = Inr (Decimal 0)"
  by (simp add: dec_eval)

text \<open>
  C8 (amended). The request is rejected with status 401 if and only if a non-empty secret
  is configured, the caller supplied a non-empty token header, and the two differ. A
  request with no token header, or with an empty one, passes the authentication step
  whatever is configured.
\<close>

theorem token_rejected_iff_nonempty_mismatch:
  "((\<exists>detail. fst (atfood_endpoint cfg w payload client tok user st) =
        Inl (HTTPException 401 detail)) \<longleftrightarrow>
    (\<exists>secret supplied. ATFOOD_API_TOKEN cfg = Some secret \<and> secret \<noteq> [] \<and>
        tok = Some supplied \<and> supplied \<noteq> [] \<and> supplied \<noteq> secret)) \<and>
   (tok = None \<or> tok = Some [] \<longrightarrow> authenticate cfg tok = Inr ())"
proof
  show "(\<exists>detail. fst (atfood_endpoint cfg w payload client tok user st) =
        Inl (HTTPException 401 detail)) \<longleftrightarrow>
    (\<exists>secret supplied. ATFOOD_API_TOKEN cfg = Some secret \<and> secret \<noteq> [] \<and>
        tok = Some supplied \<and> supplied \<noteq> [] \<and> supplied \<noteq> secret)"
    unfolding endpoint_401_iff authenticate_rejects_iff ..
  show "tok = None \<or> tok = Some [] \<longrightarrow> authenticate cfg tok = Inr ()"
    by (auto simp: authenticate_def truthy_def)
qed

text \<open>With the secret \<^verbatim>\<open>s3cret\<close> configured, the header \<^verbatim>\<open>guess\<close> is answered with 401 and
  a request without the header passes the authentication step.\<close>

theorem token_rejected_iff_nonempty_mismatch_witness:
  "(\<exists>detail.
      fst (atfood_endpoint (default_limits\<lparr>ATFOOD_API_TOKEN := Some ''s3cret''\<rparr>)
             (sample_world 100 ''Try laksa.'' True) (sample_request ''world_picks'')
             (Some ''203.0.113.7'') (Some ''guess'') None (sample_state [])) =
      Inl (HTTPException 401 detail)) \<and>
   authenticate (default_limits\<lparr>ATFOOD_API_TOKEN := Some ''s3cret''\<rparr>) None = Inr ()"
proof -
  let ?cfg = "default_limits\<lparr>ATFOOD_API_TOKEN := Some ''s3cret''\<rparr>"
  note T = token_rejected_iff_nonempty_mismatch [of ?cfg "sample_world 100 ''Try laksa.'' True"
      "sample_request ''world_picks''" "Some ''203.0.113.7''" _ None "sample_state []"]
  have "\<exists>secret supplied. ATFOOD_API_TOKEN ?cfg = Some secret \<and> secret \<noteq> [] \<and>
      Some ''guess'' = Some supplied \<and> supplied \<noteq> [] \<and> supplied \<noteq> secret"
    by simp
  then have "\<exists>detail.
      fst (atfood_endpoint ?cfg (sample_world 100 ''Try laksa.'' True) (sample_request ''world_picks'')
             (Some ''203.0.113.7'') (Some ''guess'') None (sample_state [])) =
      Inl (HTTPException 401 detail)"
    using T [of "Some ''guess''", THEN conjunct1] by blast
  moreover have "authenticate ?cfg None = Inr ()"
    using T [of None, THEN conjunct2] by blast
  ultimately show ?thesis by blast
qed

text \<open>
  C8 as stated fails for a token header that is supplied but empty: the secret
  \<^verbatim>\<open>s3cret\<close> is configured, the header is the empty string, the two do not match, and the
  request is served.
\<close>

theorem empty_token_header_passes_counterexample:
  "ATFOOD_API_TOKEN (default_limits\<lparr>ATFOOD_API_TOKEN := Some ''s3cret''\<rparr>) = Some ''s3cret'' \<and>
   (Some [] :: string option) \<noteq> Some ''s3cret'' \<and>
   authenticate (default_limits\<lparr>ATFOOD_API_TOKEN := Some ''s3cret''\<rparr>) (Some []) = Inr () \<and>
   fst (atfood_endpoint (default_limits\<lparr>ATFOOD_API_TOKEN := Some ''s3cret''\<rparr>)
          (sample_world 100 ''Try laksa.'' True) (sample_request ''world_picks'')
          (Some ''203.0.113.7'') (Some []) None (sample_state [])) =
     Inr \<lparr>resp_text = ''Try laksa.'', resp_prompt_tokens = 0, resp_response_tokens = 0,
          resp_total_cost = Decimal 0\<rparr>"
  by (simp add: sample_eval total_cost_free)



text \<open>
  C2. A successful response is returned only when the insert succeeded, and then the
  table is the old table followed by exactly one row, which holds the action, text,
  token counts and cost of the response. When the request reaches the insert (the model
  call returned a non-empty text) and the insert fails, the result is status 500 and the
  table is left as it was.
\<close>

theorem success_only_after_one_record:
  "(\<forall>resp. fst (atfood_endpoint cfg w payload client tok user st) = Inr resp \<longrightarrow>
      insert_succeeds w \<and>
      (\<exists>row. conversations (snd (atfood_endpoint cfg w payload client tok user st)) =
                conversations st @ [row] \<and>
             rec_action row = action payload \<and>
             rec_response_text row = resp_text resp \<and>
             rec_prompt_tokens row = resp_prompt_tokens resp \<and>
             rec_response_tokens row = resp_response_tokens resp \<and>
             rec_total_cost row = resp_total_cost resp)) \<and>
   (authenticate cfg tok = Inr () \<and>
    fst (enforce_rate_limit cfg (monotonic w) (client_ip_of client) (rate_buckets st)) = Inr () \<and>
    build_prompt w payload = Inr prompt \<and>
    responses_create w prompt = Some response \<and>
    total_cost (OPEN_INPUT_PRICE_PER_1K cfg) (OPEN_OUTPUT_PRICE_PER_1K cfg)
      (fst (usage_tokens response)) (snd (usage_tokens response)) = Inr cost \<and>
    strip (extract_output_text response) \<noteq> [] \<and>
    \<not> insert_succeeds w \<longrightarrow>
      fst (atfood_endpoint cfg w payload client tok user st) =
        Inl (HTTPException 500 ''Failed to save conversation'') \<and>
      conversations (snd (atfood_endpoint cfg w payload client tok user st)) = conversations st)"
proof (intro conjI impI allI)
  fix resp
  assume ok: "fst (atfood_endpoint cfg w payload client tok user st) = Inr resp"
  from endpoint_success [OF ok] obtain prompt
    where gen: "fst (generate_and_store cfg w payload user (client_ip_of client) prompt
                  (conversations st)) = Inr resp"
      and table: "conversations (snd (atfood_endpoint cfg w payload client tok user st)) =
             snd (generate_and_store cfg w payload user (client_ip_of client) prompt (conversations st))"
    by blast
  from generate_and_store_success [OF gen] obtain response cost
    where ins: "insert_succeeds w"
      and resp: "resp = \<lparr>resp_text = strip (extract_output_text response),
                   resp_prompt_tokens = fst (usage_tokens response),
                   resp_response_tokens = snd (usage_tokens response),
                   resp_total_cost = cost\<rparr>"
      and row: "snd (generate_and_store cfg w payload user (client_ip_of client) prompt (conversations st)) =
             conversations st @ [\<lparr>rec_user_id = user_id_of user (client_ip_of client),
                       rec_action = action payload,
                       rec_prompt = prompt,
                       rec_response_text = strip (extract_output_text response),
                       rec_prompt_tokens = fst (usage_tokens response),
                       rec_response_tokens = snd (usage_tokens response),
                       rec_total_cost = cost\<rparr>]"
    by blast
  show "insert_succeeds w" by (rule ins)
  show "\<exists>row. conversations (snd (atfood_endpoint cfg w payload client tok user st)) =
                conversations st @ [row] \<and>
             rec_action row = action payload \<and>
             rec_response_text row = resp_text resp \<and>
             rec_prompt_tokens row = resp_prompt_tokens resp \<and>
             rec_response_tokens row = resp_response_tokens resp \<and>
             rec_total_cost row = resp_total_cost resp"
    unfolding table row resp by simp
next
  assume reach: "authenticate cfg tok = Inr () \<and>
    fst (enforce_rate_limit cfg (monotonic w) (client_ip_of client) (rate_buckets st)) = Inr () \<and>
    build_prompt w payload = Inr prompt \<and>
    responses_create w prompt = Some response \<and>
    total_cost (OPEN_INPUT_PRICE_PER_1K cfg) (OPEN_OUTPUT_PRICE_PER_1K cfg)
      (fst (usage_tokens response)) (snd (usage_tokens response)) = Inr cost \<and>
    strip (extract_output_text response) \<noteq> [] \<and>
    \<not> insert_succeeds w"
  then have auth: "authenticate cfg tok = Inr ()"
    and lim: "fst (enforce_rate_limit cfg (monotonic w) (client_ip_of client) (rate_buckets st)) = Inr ()"
    and prompt: "build_prompt w payload = Inr prompt"
    and reply: "responses_create w prompt = Some response"
    and cost: "total_cost (OPEN_INPUT_PRICE_PER_1K cfg) (OPEN_OUTPUT_PRICE_PER_1K cfg)
      (fst (usage_tokens response)) (snd (usage_tokens response)) = Inr cost"
    and nonblank: "strip (extract_output_text response) \<noteq> []"
    and down: "\<not> insert_succeeds w"
    by simp_all
  note gen = generate_and_store_insert_fails [OF reply cost nonblank down]
  show "fst (atfood_endpoint cfg w payload client tok user st) =
      Inl (HTTPException 500 ''Failed to save conversation'')"
    by (simp add: endpoint_generates [OF auth lim prompt] gen)
  show "conversations (snd (atfood_endpoint cfg w payload client tok user st)) = conversations st"
    by (simp add: endpoint_generates [OF auth lim prompt] gen)
qed

text \<open>The same request with the insert succeeding (one row stored, the response
  returned) and failing (status 500, no row).\<close>

theorem success_only_after_one_record_witness:
  "fst (atfood_endpoint default_limits (sample_world 100 ''Try laksa.'' True)
          (sample_request ''world_picks'') (Some ''203.0.113.7'') None None (sample_state [])) =
     Inr \<lparr>resp_text = ''Try laksa.'', resp_prompt_tokens = 0, resp_response_tokens = 0,
          resp_total_cost = Decimal 0\<rparr> \<and>
   (\<exists>row. conversations (snd (atfood_endpoint default_limits (sample_world 100 ''Try laksa.'' True)
          (sample_request ''world_picks'') (Some ''203.0.113.7'') None None (sample_state []))) =
        [row] \<and> rec_response_text row = ''Try laksa.'') \<and>
   \<not> insert_succeeds (sample_world 100 ''Try laksa.'' False) \<and>
   fst (atfood_endpoint default_limits (sample_world 100 ''Try laksa.'' False)
          (sample_request ''world_picks'') (Some ''203.0.113.7'') None None (sample_state [])) =
     Inl (HTTPException 500 ''Failed to save conversation'') \<and>
   conversations (snd (atfood_endpoint default_limits (sample_world 100 ''Try laksa.'' False)
          (sample_request ''world_picks'') (Some ''203.0.113.7'') None None (sample_state []))) = []"
proof -
  let ?up = "sample_world 100 ''Try laksa.'' True"
  let ?down = "sample_world 100 ''Try laksa.'' False"
  let ?req = "sample_request ''world_picks''"
  let ?response = "\<lparr>output_text = Some ''Try laksa.'', output_items = None, usage = None\<rparr>"
  let ?resp = "\<lparr>resp_text = ''Try laksa.'', resp_prompt_tokens = 0, resp_response_tokens = 0,
          resp_total_cost = Decimal 0\<rparr>"
  have ok: "fst (atfood_endpoint default_limits ?up ?req (Some ''203.0.113.7'') None None
      (sample_state [])) = Inr ?resp"
    by (simp add: sample_eval total_cost_free)
  have stored: "\<exists>row. conversations (snd (atfood_endpoint default_limits ?up ?req
        (Some ''203.0.113.7'') None None (sample_state []))) = [row] \<and>
      rec_response_text row = ''Try laksa.''"
    using success_only_after_one_record [of default_limits ?up ?req "Some ''203.0.113.7''" None None
        "sample_state []", THEN conjunct1, rule_format, OF ok]
    by (auto simp: sample_state_def)
  have auth: "authenticate default_limits None = Inr ()"
    by (simp add: authenticate_def truthy_def)
  have lim: "fst (enforce_rate_limit default_limits (monotonic ?down)
      (client_ip_of (Some ''203.0.113.7'')) (rate_buckets (sample_state []))) = Inr ()"
    by (simp add: sample_eval)
  have prompt: "build_prompt ?down ?req = Inr (prompt_world_picks ?req)"
    by (simp add: build_prompt_def ACTION_PROMPTS_def sample_request_def truthy_def)
  have reply: "responses_create ?down (prompt_world_picks ?req) = Some ?response"
    by (simp add: sample_world_def)
  have cost: "total_cost (OPEN_INPUT_PRICE_PER_1K default_limits) (OPEN_OUTPUT_PRICE_PER_1K default_limits)
      (fst (usage_tokens ?response)) (snd (usage_tokens ?response)) = Inr (Decimal 0)"
    by (simp add: default_limits_def usage_tokens_def getattr_usage_def int_or_0_def total_cost_free)
  have nonblank: "strip (extract_output_text ?response) \<noteq> []"
    by (simp add: extract_output_text_def strip_def lstrip_def rstrip_def isspace_def)
  have down: "\<not> insert_succeeds ?down"
    by (simp add: sample_world_def)
  have failed: "fst (atfood_endpoint default_limits ?down ?req (Some ''203.0.113.7'') None None
        (sample_state [])) = Inl (HTTPException 500 ''Failed to save conversation'') \<and>
      conversations (snd (atfood_endpoint default_limits ?down ?req (Some ''203.0.113.7'') None None
        (sample_state []))) = conversations (sample_state [])"
    using success_only_after_one_record [of default_limits ?down ?req "Some ''203.0.113.7''" None None
        "sample_state []" "prompt_world_picks ?req" ?response "Decimal 0",
        THEN conjunct2, THEN mp]
      auth lim prompt reply cost nonblank down
    by blast
  from ok stored down failed show ?thesis
    by (simp add: sample_state_def)
qed




end
